theory Spec2Isabelle
  imports Main "HOL-Library.Sublist"
begin

section \<open>The August integration entry point\<close>

text \<open>
  A shallow embedding of \<^verbatim>\<open>homeassistant/components/august/__init__.py\<close>.
  The module is glue between the host framework and the vendor library: it calls
  collaborators in a fixed order and translates their exceptions. The embedding keeps a
  log of the operations performed on the collaborators, in the order the interpreter
  performs them, and lets every collaborator call either return or raise.
\<close>

subsection \<open>Exceptions\<close>

text \<open>
  The exception classes the module names in its \<^verbatim>\<open>except\<close> and \<^verbatim>\<open>raise\<close> statements are
  constructors of their own; \<open>OtherException n\<close> is any other class, of name \<open>n\<close>.
\<close>

datatype exc_class =
    RequireValidation
  | InvalidAuth
  | TimeoutError
  | AugustApiAIOHTTPError
  | ClientResponseError
  | CannotConnect
  | ConfigEntryAuthFailed
  | ConfigEntryNotReady
  | OtherException string

text \<open>
  An exception object: its class, the arguments it was constructed with, and
  \<^verbatim>\<open>__cause__\<close>, which \<^verbatim>\<open>raise ... from err\<close> sets to \<^verbatim>\<open>err\<close>.
\<close>

datatype exn = Exn (exc_type: exc_class) (exc_args: "string list") (exc_cause: "exn option")

text \<open>
  What the module imports and is declared elsewhere: the constants of
  \<^verbatim>\<open>homeassistant.const\<close> and \<^verbatim>\<open>.const\<close>, and the class hierarchy of the exceptions.
  \<open>superclasses k c\<close> lists the classes \<open>c\<close> derives from, directly or not (the rest of
  its \<^verbatim>\<open>__mro__\<close>); a class may derive from several. All of these are parameters of the
  embedding, and nothing is assumed about them.
\<close>

record const =
  CONF_PASSWORD :: string
  EVENT_HOMEASSISTANT_STOP :: string
  DOMAIN :: string
  PLATFORMS :: "string list"
  superclasses :: "exc_class \<Rightarrow> exc_class list"

definition issubclass :: "const \<Rightarrow> exc_class \<Rightarrow> exc_class \<Rightarrow> bool" where
  "issubclass k d c = (d = c \<or> c \<in> set (superclasses k d))"

text \<open>\<^verbatim>\<open>except c as err\<close> catches \<^verbatim>\<open>err\<close> when it is an instance of \<open>c\<close>.\<close>

definition isinstance :: "const \<Rightarrow> exn \<Rightarrow> exc_class \<Rightarrow> bool" where
  "isinstance k e c = issubclass k (exc_type e) c"

subsection \<open>Objects and the operations performed on collaborators\<close>

datatype cfg_value = StrVal string | IntVal int

type_synonym config = "string \<rightharpoonup> cfg_value"

text \<open>The object returned by \<^verbatim>\<open>async_create_august_clientsession(hass)\<close>.\<close>

datatype session = August_clientsession

text \<open>\<^verbatim>\<open>AugustGateway(Path(hass.config.config_dir), session)\<close>.\<close>

datatype gateway = AugustGateway string session

text \<open>\<^verbatim>\<open>AugustData(hass, entry, august_gateway)\<close>; \<^verbatim>\<open>hass\<close> and \<^verbatim>\<open>entry\<close> are the ambient world.\<close>

datatype august_data = AugustData gateway

text \<open>
  Callables handed to the host: the bound method \<^verbatim>\<open>data.async_stop\<close>, and the handle
  that \<^verbatim>\<open>hass.bus.async_listen(event, listener)\<close> returns.
\<close>

datatype callback =
    Async_stop august_data
  | Remove_listener string callback

datatype action =
    Async_create_august_clientsession
  | AugustGateway_init string session
  | Gateway_async_setup gateway config
  | Async_update_entry config
  | Gateway_async_authenticate gateway
  | Gateway_async_refresh_access_token_if_needed gateway
  | AugustData_init gateway
  | Set_runtime_data august_data
  | Bus_async_listen string callback
  | Entry_async_on_unload callback
  | Data_async_setup august_data
  | Async_forward_entry_setups "string list"

record config_entry =
  data :: config
  runtime_data :: "august_data option"

record world =
  config_dir :: string
  entry :: config_entry
  trace :: "action list"

subsection \<open>Sequencing with exceptions\<close>

text \<open>
  A statement maps the world to a result and the world it leaves behind; \<open>Inl e\<close> is
  the exception \<open>e\<close> raised. What was done before a raise stays done.
\<close>

type_synonym 'a stmt = "world \<Rightarrow> (exn + 'a) \<times> world"

definition returns :: "'a \<Rightarrow> 'a stmt" where
  "returns a = (\<lambda>w. (Inr a, w))"

definition raise_exn :: "exn \<Rightarrow> 'a stmt" where
  "raise_exn e = (\<lambda>w. (Inl e, w))"

definition and_then :: "'a stmt \<Rightarrow> ('a \<Rightarrow> 'b stmt) \<Rightarrow> 'b stmt" where
  "and_then m f = (\<lambda>w. case m w of (Inl e, w') \<Rightarrow> (Inl e, w') | (Inr a, w') \<Rightarrow> f a w')"

text \<open>\<^verbatim>\<open>try: m  except BaseException as err: h err\<close>.\<close>

definition try_except :: "'a stmt \<Rightarrow> (exn \<Rightarrow> 'a stmt) \<Rightarrow> 'a stmt" where
  "try_except m h = (\<lambda>w. case m w of (Inl e, w') \<Rightarrow> h e w' | (Inr a, w') \<Rightarrow> (Inr a, w'))"

text \<open>
  A call into a collaborator: it is logged, and \<open>raises\<close> says whether it raises. The
  outcome of every collaborator call is a parameter, so a theorem for all \<open>raises\<close>
  covers every combination of failures.
\<close>

definition perform :: "(action \<Rightarrow> exn option) \<Rightarrow> action \<Rightarrow> unit stmt" where
  "perform raises a = (\<lambda>w.
     let w' = w\<lparr>trace := trace w @ [a]\<rparr>
     in case raises a of None \<Rightarrow> (Inr (), w') | Some e \<Rightarrow> (Inl e, w'))"

text \<open>\<^verbatim>\<open>entry.runtime_data = data\<close>: an attribute assignment, which does not raise.\<close>

definition set_runtime_data :: "august_data \<Rightarrow> unit stmt" where
  "set_runtime_data d = (\<lambda>w.
     (Inr (), w\<lparr>entry := (entry w)\<lparr>runtime_data := Some d\<rparr>,
                trace := trace w @ [Set_runtime_data d]\<rparr>))"

subsection \<open>The module's functions\<close>

definition async_setup_august ::
  "const \<Rightarrow> (action \<Rightarrow> exn option) \<Rightarrow> gateway \<Rightarrow> bool stmt" where
  "async_setup_august k raises august_gateway = (\<lambda>w0.
     (let config = data (entry w0) in
      and_then (perform raises (Gateway_async_setup august_gateway config)) (\<lambda>_.
      and_then (\<lambda>w.
        if CONF_PASSWORD k \<in> dom (data (entry w)) then
          (let config_data = data (entry w);
               config_data = config_data(CONF_PASSWORD k := None)
           in perform raises (Async_update_entry config_data) w)
        else returns () w) (\<lambda>_.
      and_then (perform raises (Gateway_async_authenticate august_gateway)) (\<lambda>_.
      and_then (perform raises
        (Gateway_async_refresh_access_token_if_needed august_gateway)) (\<lambda>_.
      and_then (perform raises (AugustData_init august_gateway)) (\<lambda>_.
      (let data' = AugustData august_gateway in
      and_then (set_runtime_data data') (\<lambda>_.
      and_then (perform raises
        (Bus_async_listen (EVENT_HOMEASSISTANT_STOP k) (Async_stop data'))) (\<lambda>_.
      and_then (perform raises (Entry_async_on_unload
        (Remove_listener (EVENT_HOMEASSISTANT_STOP k) (Async_stop data')))) (\<lambda>_.
      and_then (perform raises (Entry_async_on_unload (Async_stop data'))) (\<lambda>_.
      and_then (perform raises (Data_async_setup data')) (\<lambda>_.
      and_then (perform raises (Async_forward_entry_setups (PLATFORMS k))) (\<lambda>_.
      returns True))))))))))))) w0)"

definition async_setup_entry :: "const \<Rightarrow> (action \<Rightarrow> exn option) \<Rightarrow> bool stmt" where
  "async_setup_entry k raises = (\<lambda>w0.
     and_then (perform raises Async_create_august_clientsession) (\<lambda>_.
     (let session = August_clientsession in
      and_then (perform raises (AugustGateway_init (config_dir w0) session)) (\<lambda>_.
      (let august_gateway = AugustGateway (config_dir w0) session in
       try_except (async_setup_august k raises august_gateway) (\<lambda>err.
         if isinstance k err RequireValidation \<or> isinstance k err InvalidAuth then
           raise_exn (Exn ConfigEntryAuthFailed [] (Some err))
         else if isinstance k err TimeoutError then
           raise_exn (Exn ConfigEntryNotReady
                        [''Timed out connecting to august api''] (Some err))
         else if isinstance k err AugustApiAIOHTTPError
                 \<or> isinstance k err ClientResponseError
                 \<or> isinstance k err CannotConnect then
           raise_exn (Exn ConfigEntryNotReady [] (Some err))
         else raise_exn err))))) w0)"

text \<open>
  \<^verbatim>\<open>async_remove_config_entry_device\<close>. The device's identifiers are a set of pairs,
  given here in the order the generator visits them. \<open>get_device\<close> is the method of the
  runtime data (\<open>None\<close> is Python's \<^verbatim>\<open>None\<close>, any device object is truthy). Reading
  \<^verbatim>\<open>config_entry.runtime_data\<close> before setup has assigned it raises \<^verbatim>\<open>AttributeError\<close>;
  the generator reads it only for an identifier of this domain, and \<^verbatim>\<open>any\<close> stops at the
  first element it yields, a pair, which is truthy.
\<close>

record device_entry =
  identifiers :: "(string \<times> string) list"

fun any_identifier ::
  "const \<Rightarrow> (august_data \<Rightarrow> string \<Rightarrow> 'd option) \<Rightarrow> config_entry
     \<Rightarrow> (string \<times> string) list \<Rightarrow> exn + bool" where
  "any_identifier k get_device config_entry [] = Inr False"
| "any_identifier k get_device config_entry (identifier # rest) =
     (if fst identifier = DOMAIN k then
        (case runtime_data config_entry of
           None \<Rightarrow> Inl (Exn (OtherException ''AttributeError'') [] None)
         | Some rd \<Rightarrow>
             if get_device rd (snd identifier) \<noteq> None then Inr True
             else any_identifier k get_device config_entry rest)
      else any_identifier k get_device config_entry rest)"

definition async_remove_config_entry_device ::
  "const \<Rightarrow> (august_data \<Rightarrow> string \<Rightarrow> 'd option) \<Rightarrow> config_entry
     \<Rightarrow> device_entry \<Rightarrow> exn + bool" where
  "async_remove_config_entry_device k get_device config_entry device_entry =
     (case any_identifier k get_device config_entry (identifiers device_entry) of
        Inl e \<Rightarrow> Inl e
      | Inr b \<Rightarrow> Inr (\<not> b))"

subsection \<open>Reading the log\<close>

text \<open>The operations a run from \<open>w\<close> to \<open>w'\<close> performed, in order.\<close>

definition performed :: "world \<Rightarrow> world \<Rightarrow> action list" where
  "performed w w' = drop (length (trace w)) (trace w')"

text \<open>
  \<open>precedes a b xs\<close>: \<open>a\<close> occurs in \<open>xs\<close>, \<open>b\<close> does not occur before the first \<open>a\<close>,
  and \<open>b\<close> occurs after it.
\<close>

fun precedes :: "'a \<Rightarrow> 'a \<Rightarrow> 'a list \<Rightarrow> bool" where
  "precedes a b [] = False"
| "precedes a b (x # xs) = (if x = a then b \<in> set xs else x \<noteq> b \<and> precedes a b xs)"

text \<open>The data of the \<^verbatim>\<open>async_update_entry\<close> calls in a log, in order.\<close>

fun entry_updates :: "action list \<Rightarrow> config list" where
  "entry_updates [] = []"
| "entry_updates (Async_update_entry config_data # xs) = config_data # entry_updates xs"
| "entry_updates (_ # xs) = entry_updates xs"

text \<open>The operation an action is an instance of, without its arguments.\<close>

fun action_name :: "action \<Rightarrow> string" where
  "action_name Async_create_august_clientsession = ''async_create_august_clientsession''"
| "action_name (AugustGateway_init _ _) = ''AugustGateway''"
| "action_name (Gateway_async_setup _ _) = ''august_gateway.async_setup''"
| "action_name (Async_update_entry _) = ''hass.config_entries.async_update_entry''"
| "action_name (Gateway_async_authenticate _) = ''august_gateway.async_authenticate''"
| "action_name (Gateway_async_refresh_access_token_if_needed _) =
     ''august_gateway.async_refresh_access_token_if_needed''"
| "action_name (AugustData_init _) = ''AugustData''"
| "action_name (Set_runtime_data _) = ''entry.runtime_data =''"
| "action_name (Bus_async_listen _ _) = ''hass.bus.async_listen''"
| "action_name (Entry_async_on_unload _) = ''entry.async_on_unload''"
| "action_name (Data_async_setup _) = ''data.async_setup''"
| "action_name (Async_forward_entry_setups _) =
     ''hass.config_entries.async_forward_entry_setups''"

subsection \<open>Concrete inputs\<close>

text \<open>
  A class hierarchy in which \<^verbatim>\<open>ServerTimeoutError\<close> derives from \<^verbatim>\<open>TimeoutError\<close>,
  \<^verbatim>\<open>AuthTimeout\<close> from \<^verbatim>\<open>InvalidAuth\<close> and \<^verbatim>\<open>TimeoutError\<close>, and \<^verbatim>\<open>AuthCannotConnect\<close> from
  \<^verbatim>\<open>InvalidAuth\<close> and \<^verbatim>\<open>CannotConnect\<close>; a configuration, an entry that still stores a
  password, one that does not, and collaborators of which the named one raises.
\<close>

definition example_superclasses :: "exc_class \<Rightarrow> exc_class list" where
  "example_superclasses c =
     (if c = TimeoutError then
        [OtherException ''OSError'', OtherException ''Exception'']
      else if c = OtherException ''ServerTimeoutError'' then
        [TimeoutError, OtherException ''OSError'', OtherException ''Exception'']
      else if c = OtherException ''AuthTimeout'' then
        [InvalidAuth, TimeoutError, OtherException ''OSError'', OtherException ''Exception'']
      else if c = OtherException ''AuthCannotConnect'' then
        [InvalidAuth, CannotConnect, OtherException ''Exception'']
      else if c = OtherException ''Exception'' then []
      else [OtherException ''Exception''])"

definition example_const :: const where
  "example_const = \<lparr>CONF_PASSWORD = ''password'',
     EVENT_HOMEASSISTANT_STOP = ''homeassistant_stop'',
     DOMAIN = ''august'', PLATFORMS = [''lock'', ''sensor''],
     superclasses = example_superclasses\<rparr>"

definition example_world :: world where
  "example_world = \<lparr>config_dir = ''/config'',
     entry = \<lparr>data = [''username'' \<mapsto> StrVal ''u'', ''password'' \<mapsto> StrVal ''p''],
              runtime_data = None\<rparr>,
     trace = []\<rparr>"

definition example_world_no_password :: world where
  "example_world_no_password = \<lparr>config_dir = ''/config'',
     entry = \<lparr>data = [''username'' \<mapsto> StrVal ''u''], runtime_data = None\<rparr>,
     trace = []\<rparr>"

definition example_gateway :: gateway where
  "example_gateway = AugustGateway ''/config'' August_clientsession"

definition never_raises :: "action \<Rightarrow> exn option" where
  "never_raises = (\<lambda>a. None)"

definition fails_at :: "string \<Rightarrow> exn \<Rightarrow> action \<Rightarrow> exn option" where
  "fails_at name e = (\<lambda>a. if action_name a = name then Some e else None)"

definition example_config_entry :: config_entry where
  "example_config_entry = \<lparr>data = [''username'' \<mapsto> StrVal ''u''],
     runtime_data = Some (AugustData example_gateway)\<rparr>"

definition example_get_device :: "august_data \<Rightarrow> string \<Rightarrow> string option" where
  "example_get_device rd device_id = (if device_id = ''lock1'' then Some ''Front door'' else None)"

section \<open>Properties\<close>

subsection \<open>Running statements\<close>

lemma perform_None:
  "raises a = None \<Longrightarrow> perform raises a w = (Inr (), w\<lparr>trace := trace w @ [a]\<rparr>)"
  by (simp add: perform_def)

lemma perform_Inr:
  "perform raises a w = (Inr u, w') \<longleftrightarrow> raises a = None \<and> w' = w\<lparr>trace := trace w @ [a]\<rparr>"
  by (auto simp: perform_def Let_def split: option.splits)

lemma and_then_Inr:
  "and_then m f w = (Inr b, w') \<longleftrightarrow> (\<exists>a w1. m w = (Inr a, w1) \<and> f a w1 = (Inr b, w'))"
  by (auto simp: and_then_def split: prod.splits sum.splits)

lemmas run_defs = async_setup_august_def and_then_def perform_def returns_def
  set_runtime_data_def Let_def

lemmas example_defs = example_const_def example_world_def example_world_no_password_def
  example_gateway_def never_raises_def fails_at_def

text \<open>
  Where the \<^verbatim>\<open>try\<close> statement of \<^verbatim>\<open>async_setup_entry\<close> is entered: the session and the
  gateway have been created without raising.
\<close>

lemma async_setup_entry_try:
  assumes "raises Async_create_august_clientsession = None"
    and "raises (AugustGateway_init (config_dir w) August_clientsession) = None"
  shows "async_setup_entry k raises w =
    try_except
      (async_setup_august k raises (AugustGateway (config_dir w) August_clientsession))
      (\<lambda>err.
         if isinstance k err RequireValidation \<or> isinstance k err InvalidAuth then
           raise_exn (Exn ConfigEntryAuthFailed [] (Some err))
         else if isinstance k err TimeoutError then
           raise_exn (Exn ConfigEntryNotReady
                        [''Timed out connecting to august api''] (Some err))
         else if isinstance k err AugustApiAIOHTTPError
                 \<or> isinstance k err ClientResponseError
                 \<or> isinstance k err CannotConnect then
           raise_exn (Exn ConfigEntryNotReady [] (Some err))
         else raise_exn err)
      (w\<lparr>trace := trace w @ [Async_create_august_clientsession,
            AugustGateway_init (config_dir w) August_clientsession]\<rparr>)"
  using assms by (simp add: async_setup_entry_def and_then_def perform_None)

lemmas class_defs = isinstance_def issubclass_def example_const_def example_superclasses_def

subsection \<open>Exception translation\<close>

text \<open>
  C1. Whenever the underlying setup \<^verbatim>\<open>async_setup_august\<close> raises an instance of
  \<^verbatim>\<open>RequireValidation\<close> or of \<^verbatim>\<open>InvalidAuth\<close>, \<^verbatim>\<open>async_setup_entry\<close> raises
  \<^verbatim>\<open>ConfigEntryAuthFailed\<close> whose cause is the original exception.
\<close>

theorem async_setup_entry_auth_failed:
  fixes w :: world
  defines "session \<equiv> August_clientsession"
  defines "august_gateway \<equiv> AugustGateway (config_dir w) session"
  defines "w2 \<equiv> w\<lparr>trace := trace w @ [Async_create_august_clientsession,
                     AugustGateway_init (config_dir w) session]\<rparr>"
  assumes "raises Async_create_august_clientsession = None"
    and "raises (AugustGateway_init (config_dir w) session) = None"
    and "async_setup_august k raises august_gateway w2 = (Inl err, w')"
    and "isinstance k err RequireValidation \<or> isinstance k err InvalidAuth"
  shows "async_setup_entry k raises w = (Inl (Exn ConfigEntryAuthFailed [] (Some err)), w')"
  using assms by (simp add: async_setup_entry_try try_except_def raise_exn_def)

theorem async_setup_entry_auth_failed_witness:
  "isinstance example_const (Exn InvalidAuth [''expired''] None) InvalidAuth \<and>
   fst (async_setup_entry example_const
      (fails_at ''august_gateway.async_authenticate'' (Exn InvalidAuth [''expired''] None))
      example_world)
   = Inl (Exn ConfigEntryAuthFailed [] (Some (Exn InvalidAuth [''expired''] None)))"
proof -
  let ?e = "Exn InvalidAuth [''expired''] None"
  let ?r = "fails_at ''august_gateway.async_authenticate'' ?e"
  have i: "isinstance example_const ?e RequireValidation
           \<or> isinstance example_const ?e InvalidAuth"
    by (simp add: class_defs)
  have r1: "?r Async_create_august_clientsession = None"
    by (simp add: fails_at_def)
  have r2: "?r (AugustGateway_init (config_dir example_world) August_clientsession) = None"
    by (simp add: fails_at_def)
  obtain w' where h: "async_setup_august example_const ?r
      (AugustGateway (config_dir example_world) August_clientsession)
      (example_world\<lparr>trace := trace example_world @ [Async_create_august_clientsession,
         AugustGateway_init (config_dir example_world) August_clientsession]\<rparr>) = (Inl ?e, w')"
    by (simp add: run_defs example_defs)
  from async_setup_entry_auth_failed [OF r1 r2 h i] show ?thesis
    by (simp add: class_defs)
qed

text \<open>
  C2, as amended. Whenever the underlying setup raises an instance of \<^verbatim>\<open>TimeoutError\<close>
  that is not also an instance of \<^verbatim>\<open>RequireValidation\<close> or of \<^verbatim>\<open>InvalidAuth\<close>,
  \<^verbatim>\<open>async_setup_entry\<close> raises \<^verbatim>\<open>ConfigEntryNotReady\<close> (with the message
  "Timed out connecting to august api") whose cause is the original exception.
\<close>

theorem async_setup_entry_timeout:
  fixes w :: world
  defines "session \<equiv> August_clientsession"
  defines "august_gateway \<equiv> AugustGateway (config_dir w) session"
  defines "w2 \<equiv> w\<lparr>trace := trace w @ [Async_create_august_clientsession,
                     AugustGateway_init (config_dir w) session]\<rparr>"
  assumes "raises Async_create_august_clientsession = None"
    and "raises (AugustGateway_init (config_dir w) session) = None"
    and "async_setup_august k raises august_gateway w2 = (Inl err, w')"
    and "isinstance k err TimeoutError"
    and "\<not> isinstance k err RequireValidation" and "\<not> isinstance k err InvalidAuth"
  shows "async_setup_entry k raises w =
    (Inl (Exn ConfigEntryNotReady [''Timed out connecting to august api''] (Some err)), w')"
  using assms by (simp add: async_setup_entry_try try_except_def raise_exn_def)

theorem async_setup_entry_timeout_witness:
  "isinstance example_const (Exn (OtherException ''ServerTimeoutError'') [] None) TimeoutError
   \<and> fst (async_setup_entry example_const
      (fails_at ''august_gateway.async_setup''
         (Exn (OtherException ''ServerTimeoutError'') [] None))
      example_world)
   = Inl (Exn ConfigEntryNotReady [''Timed out connecting to august api'']
           (Some (Exn (OtherException ''ServerTimeoutError'') [] None)))"
proof -
  let ?e = "Exn (OtherException ''ServerTimeoutError'') [] None"
  let ?r = "fails_at ''august_gateway.async_setup'' ?e"
  have i: "isinstance example_const ?e TimeoutError"
    "\<not> isinstance example_const ?e RequireValidation"
    "\<not> isinstance example_const ?e InvalidAuth"
    by (simp_all add: class_defs)
  have r1: "?r Async_create_august_clientsession = None"
    by (simp add: fails_at_def)
  have r2: "?r (AugustGateway_init (config_dir example_world) August_clientsession) = None"
    by (simp add: fails_at_def)
  obtain w' where h: "async_setup_august example_const ?r
      (AugustGateway (config_dir example_world) August_clientsession)
      (example_world\<lparr>trace := trace example_world @ [Async_create_august_clientsession,
         AugustGateway_init (config_dir example_world) August_clientsession]\<rparr>) = (Inl ?e, w')"
    by (simp add: run_defs example_defs)
  from async_setup_entry_timeout [OF r1 r2 h i] i(1) show ?thesis
    by simp
qed

text \<open>
  The claim without the amendment fails: an \<^verbatim>\<open>AuthTimeout\<close>, which is a \<^verbatim>\<open>TimeoutError\<close>
  and an \<^verbatim>\<open>InvalidAuth\<close>, is caught by the first \<^verbatim>\<open>except\<close> clause.
\<close>

theorem async_setup_entry_timeout_counterexample:
  "isinstance example_const (Exn (OtherException ''AuthTimeout'') [] None) TimeoutError
   \<and> fst (async_setup_august example_const
      (fails_at ''august_gateway.async_authenticate''
         (Exn (OtherException ''AuthTimeout'') [] None))
      (AugustGateway (config_dir example_world) August_clientsession)
      (example_world\<lparr>trace := trace example_world @ [Async_create_august_clientsession,
         AugustGateway_init (config_dir example_world) August_clientsession]\<rparr>))
     = Inl (Exn (OtherException ''AuthTimeout'') [] None)
   \<and> fst (async_setup_entry example_const
      (fails_at ''august_gateway.async_authenticate''
         (Exn (OtherException ''AuthTimeout'') [] None))
      example_world)
     = Inl (Exn ConfigEntryAuthFailed [] (Some (Exn (OtherException ''AuthTimeout'') [] None)))"
  by (simp add: async_setup_entry_def try_except_def raise_exn_def run_defs example_defs
      class_defs)

text \<open>
  C3, as amended. Whenever the underlying setup raises an instance of
  \<^verbatim>\<open>AugustApiAIOHTTPError\<close>, of \<^verbatim>\<open>ClientResponseError\<close> or of \<^verbatim>\<open>CannotConnect\<close> that is not
  also an instance of \<^verbatim>\<open>RequireValidation\<close> or of \<^verbatim>\<open>InvalidAuth\<close>, \<^verbatim>\<open>async_setup_entry\<close>
  raises \<^verbatim>\<open>ConfigEntryNotReady\<close> whose cause is the original exception. Its message is
  the timeout message when the exception is also a \<^verbatim>\<open>TimeoutError\<close>, and empty otherwise.
\<close>

theorem async_setup_entry_api_error:
  fixes w :: world
  defines "session \<equiv> August_clientsession"
  defines "august_gateway \<equiv> AugustGateway (config_dir w) session"
  defines "w2 \<equiv> w\<lparr>trace := trace w @ [Async_create_august_clientsession,
                     AugustGateway_init (config_dir w) session]\<rparr>"
  assumes "raises Async_create_august_clientsession = None"
    and "raises (AugustGateway_init (config_dir w) session) = None"
    and "async_setup_august k raises august_gateway w2 = (Inl err, w')"
    and "isinstance k err AugustApiAIOHTTPError \<or> isinstance k err ClientResponseError
         \<or> isinstance k err CannotConnect"
    and "\<not> isinstance k err RequireValidation" and "\<not> isinstance k err InvalidAuth"
  shows "async_setup_entry k raises w =
    (Inl (Exn ConfigEntryNotReady
            (if isinstance k err TimeoutError
             then [''Timed out connecting to august api''] else [])
            (Some err)), w')"
  using assms by (simp add: async_setup_entry_try try_except_def raise_exn_def)

theorem async_setup_entry_api_error_witness:
  "isinstance example_const (Exn CannotConnect [] None) CannotConnect \<and>
   fst (async_setup_entry example_const
      (fails_at ''august_gateway.async_refresh_access_token_if_needed''
         (Exn CannotConnect [] None))
      example_world_no_password)
   = Inl (Exn ConfigEntryNotReady [] (Some (Exn CannotConnect [] None)))"
proof -
  let ?e = "Exn CannotConnect [] None"
  let ?r = "fails_at ''august_gateway.async_refresh_access_token_if_needed'' ?e"
  let ?w = example_world_no_password
  have i: "isinstance example_const ?e AugustApiAIOHTTPError
           \<or> isinstance example_const ?e ClientResponseError
           \<or> isinstance example_const ?e CannotConnect"
    "\<not> isinstance example_const ?e RequireValidation"
    "\<not> isinstance example_const ?e InvalidAuth"
    by (simp_all add: class_defs)
  have t: "\<not> isinstance example_const ?e TimeoutError"
    by (simp add: class_defs)
  have r1: "?r Async_create_august_clientsession = None"
    by (simp add: fails_at_def)
  have r2: "?r (AugustGateway_init (config_dir ?w) August_clientsession) = None"
    by (simp add: fails_at_def)
  obtain w' where h: "async_setup_august example_const ?r
      (AugustGateway (config_dir ?w) August_clientsession)
      (?w\<lparr>trace := trace ?w @ [Async_create_august_clientsession,
         AugustGateway_init (config_dir ?w) August_clientsession]\<rparr>) = (Inl ?e, w')"
    by (simp add: run_defs example_defs)
  have c: "isinstance example_const ?e CannotConnect"
    by (simp add: class_defs)
  from async_setup_entry_api_error [OF r1 r2 h i] t c show ?thesis
    by simp
qed

text \<open>
  The claim without the amendment fails: an \<^verbatim>\<open>AuthCannotConnect\<close>, which is a
  \<^verbatim>\<open>CannotConnect\<close> and an \<^verbatim>\<open>InvalidAuth\<close>, is caught by the first \<^verbatim>\<open>except\<close> clause.
\<close>

theorem async_setup_entry_api_error_counterexample:
  "isinstance example_const (Exn (OtherException ''AuthCannotConnect'') [] None) CannotConnect
   \<and> fst (async_setup_august example_const
      (fails_at ''august_gateway.async_authenticate''
         (Exn (OtherException ''AuthCannotConnect'') [] None))
      (AugustGateway (config_dir example_world) August_clientsession)
      (example_world\<lparr>trace := trace example_world @ [Async_create_august_clientsession,
         AugustGateway_init (config_dir example_world) August_clientsession]\<rparr>))
     = Inl (Exn (OtherException ''AuthCannotConnect'') [] None)
   \<and> fst (async_setup_entry example_const
      (fails_at ''august_gateway.async_authenticate''
         (Exn (OtherException ''AuthCannotConnect'') [] None))
      example_world)
     = Inl (Exn ConfigEntryAuthFailed []
             (Some (Exn (OtherException ''AuthCannotConnect'') [] None)))"
  by (simp add: async_setup_entry_def try_except_def raise_exn_def run_defs example_defs
      class_defs)

text \<open>
  C4. Whenever the underlying setup raises an exception that is an instance of none of
  \<^verbatim>\<open>RequireValidation\<close>, \<^verbatim>\<open>InvalidAuth\<close>, \<^verbatim>\<open>TimeoutError\<close>, \<^verbatim>\<open>AugustApiAIOHTTPError\<close>,
  \<^verbatim>\<open>ClientResponseError\<close> and \<^verbatim>\<open>CannotConnect\<close>, \<^verbatim>\<open>async_setup_entry\<close> raises that same
  exception object: its class, arguments and cause are unchanged.
\<close>

theorem async_setup_entry_propagates:
  fixes w :: world
  defines "session \<equiv> August_clientsession"
  defines "august_gateway \<equiv> AugustGateway (config_dir w) session"
  defines "w2 \<equiv> w\<lparr>trace := trace w @ [Async_create_august_clientsession,
                     AugustGateway_init (config_dir w) session]\<rparr>"
  assumes "raises Async_create_august_clientsession = None"
    and "raises (AugustGateway_init (config_dir w) session) = None"
    and "async_setup_august k raises august_gateway w2 = (Inl err, w')"
    and "\<not> isinstance k err RequireValidation" and "\<not> isinstance k err InvalidAuth"
    and "\<not> isinstance k err TimeoutError" and "\<not> isinstance k err AugustApiAIOHTTPError"
    and "\<not> isinstance k err ClientResponseError" and "\<not> isinstance k err CannotConnect"
  shows "async_setup_entry k raises w = (Inl err, w')"
  using assms by (simp add: async_setup_entry_try try_except_def raise_exn_def)

theorem async_setup_entry_propagates_witness:
  "fst (async_setup_entry example_const
      (fails_at ''data.async_setup'' (Exn (OtherException ''ValueError'') [''bad''] None))
      example_world)
   = Inl (Exn (OtherException ''ValueError'') [''bad''] None)"
proof -
  let ?e = "Exn (OtherException ''ValueError'') [''bad''] None"
  let ?r = "fails_at ''data.async_setup'' ?e"
  have i: "\<not> isinstance example_const ?e RequireValidation"
    "\<not> isinstance example_const ?e InvalidAuth"
    "\<not> isinstance example_const ?e TimeoutError"
    "\<not> isinstance example_const ?e AugustApiAIOHTTPError"
    "\<not> isinstance example_const ?e ClientResponseError"
    "\<not> isinstance example_const ?e CannotConnect"
    by (simp_all add: class_defs)
  have r1: "?r Async_create_august_clientsession = None"
    by (simp add: fails_at_def)
  have r2: "?r (AugustGateway_init (config_dir example_world) August_clientsession) = None"
    by (simp add: fails_at_def)
  obtain w' where h: "async_setup_august example_const ?r
      (AugustGateway (config_dir example_world) August_clientsession)
      (example_world\<lparr>trace := trace example_world @ [Async_create_august_clientsession,
         AugustGateway_init (config_dir example_world) August_clientsession]\<rparr>) = (Inl ?e, w')"
    by (simp add: run_defs example_defs)
  from async_setup_entry_propagates [OF r1 r2 h i] show ?thesis
    by simp
qed

subsection \<open>A run of the setup routine that returns\<close>

lemma async_setup_august_returns:
  assumes "async_setup_august k raises gw w = (Inr b, w')"
  shows "b = True"
    and "entry w' = (entry w)\<lparr>runtime_data := Some (AugustData gw)\<rparr>"
    and "trace w' = trace w @
      Gateway_async_setup gw (data (entry w)) #
      (if CONF_PASSWORD k \<in> dom (data (entry w))
       then [Async_update_entry ((data (entry w))(CONF_PASSWORD k := None))] else []) @
      [Gateway_async_authenticate gw,
       Gateway_async_refresh_access_token_if_needed gw,
       AugustData_init gw,
       Set_runtime_data (AugustData gw),
       Bus_async_listen (EVENT_HOMEASSISTANT_STOP k) (Async_stop (AugustData gw)),
       Entry_async_on_unload
         (Remove_listener (EVENT_HOMEASSISTANT_STOP k) (Async_stop (AugustData gw))),
       Entry_async_on_unload (Async_stop (AugustData gw)),
       Data_async_setup (AugustData gw),
       Async_forward_entry_setups (PLATFORMS k)]"
  using assms
  by (auto simp: async_setup_august_def Let_def and_then_Inr perform_Inr returns_def
      set_runtime_data_def split: if_splits)

lemma performed_append: "trace w' = trace w @ xs \<Longrightarrow> performed w w' = xs"
  by (simp add: performed_def)

lemma async_setup_entry_returns:
  assumes "async_setup_entry k raises w = (Inr b, w')"
  shows "\<exists>w2. async_setup_august k raises
           (AugustGateway (config_dir w) August_clientsession) w2 = (Inr b, w')"
  using assms
  by (auto simp: async_setup_entry_def and_then_Inr perform_Inr try_except_def raise_exn_def
      Let_def split: prod.splits sum.splits if_splits)

text \<open>
  C10. A run of \<^verbatim>\<open>async_setup_august\<close> that does not raise returns \<^verbatim>\<open>True\<close>, and so does
  a run of \<^verbatim>\<open>async_setup_entry\<close> that does not raise; neither returns \<^verbatim>\<open>False\<close>.
\<close>

theorem setup_returns_True:
  "(async_setup_august k raises gw w = (Inr b, w') \<longrightarrow> b = True) \<and>
   (async_setup_entry k raises w = (Inr b, w') \<longrightarrow> b = True)"
  using async_setup_august_returns(1) async_setup_entry_returns by blast

theorem setup_returns_True_witness:
  "fst (async_setup_august example_const never_raises example_gateway example_world) = Inr True \<and>
   fst (async_setup_entry example_const never_raises example_world) = Inr True"
proof -
  obtain w1 where h1: "async_setup_august example_const never_raises example_gateway
      example_world = (Inr True, w1)"
    by (simp add: run_defs example_defs)
  obtain b w2 where h2: "async_setup_entry example_const never_raises example_world
      = (Inr b, w2)"
    by (simp add: async_setup_entry_def try_except_def run_defs example_defs)
  from setup_returns_True [of example_const never_raises example_gateway example_world True w1]
    setup_returns_True [of example_const never_raises example_gateway example_world b w2]
    h1 h2
  show ?thesis by simp
qed

subsection \<open>Order of operations\<close>

text \<open>
  C6. On every run of \<^verbatim>\<open>async_setup_august\<close> that returns, the gateway is set up, then
  authenticated, then its access token refreshed; after that \<^verbatim>\<open>entry.runtime_data\<close> is
  assigned the \<^verbatim>\<open>AugustData\<close> object, and after that setup is forwarded to \<^verbatim>\<open>PLATFORMS\<close>.
  The assignment is still in place when the run returns.
\<close>

theorem async_setup_august_order:
  assumes "async_setup_august k raises gw w = (Inr b, w')"
  shows "precedes (Gateway_async_setup gw (data (entry w))) (Gateway_async_authenticate gw)
           (performed w w')
       \<and> precedes (Gateway_async_authenticate gw)
           (Gateway_async_refresh_access_token_if_needed gw) (performed w w')
       \<and> precedes (Gateway_async_setup gw (data (entry w)))
           (Set_runtime_data (AugustData gw)) (performed w w')
       \<and> precedes (Gateway_async_authenticate gw)
           (Set_runtime_data (AugustData gw)) (performed w w')
       \<and> precedes (Gateway_async_refresh_access_token_if_needed gw)
           (Set_runtime_data (AugustData gw)) (performed w w')
       \<and> precedes (Set_runtime_data (AugustData gw))
           (Async_forward_entry_setups (PLATFORMS k)) (performed w w')
       \<and> runtime_data (entry w') = Some (AugustData gw)"
  using async_setup_august_returns(2,3) [OF assms]
  by (simp add: performed_append)

theorem async_setup_august_order_witness:
  "precedes (Gateway_async_authenticate example_gateway)
     (Set_runtime_data (AugustData example_gateway))
     (performed example_world
        (snd (async_setup_august example_const never_raises example_gateway example_world)))
   \<and> precedes (Set_runtime_data (AugustData example_gateway))
     (Async_forward_entry_setups [''lock'', ''sensor''])
     (performed example_world
        (snd (async_setup_august example_const never_raises example_gateway example_world)))
   \<and> runtime_data (entry
        (snd (async_setup_august example_const never_raises example_gateway example_world)))
     = Some (AugustData example_gateway)"
proof -
  obtain w1 where h1: "async_setup_august example_const never_raises example_gateway
      example_world = (Inr True, w1)"
    by (simp add: run_defs example_defs)
  from async_setup_august_order [OF h1] h1 show ?thesis
    by (simp add: example_const_def)
qed

text \<open>
  C7. On every run of \<^verbatim>\<open>async_setup_august\<close> that returns, \<^verbatim>\<open>data.async_stop\<close> has been
  registered as a listener for \<^verbatim>\<open>EVENT_HOMEASSISTANT_STOP\<close> on the bus, and directly as
  an on-unload callback of the entry, both before setup is forwarded to the platforms.
\<close>

theorem async_setup_august_cleanup_registered:
  assumes "async_setup_august k raises gw w = (Inr b, w')"
  shows "precedes
           (Bus_async_listen (EVENT_HOMEASSISTANT_STOP k) (Async_stop (AugustData gw)))
           (Async_forward_entry_setups (PLATFORMS k)) (performed w w')
       \<and> precedes (Entry_async_on_unload (Async_stop (AugustData gw)))
           (Async_forward_entry_setups (PLATFORMS k)) (performed w w')"
  using async_setup_august_returns(3) [OF assms]
  by (simp add: performed_append)

theorem async_setup_august_cleanup_registered_witness:
  "precedes
     (Bus_async_listen ''homeassistant_stop'' (Async_stop (AugustData example_gateway)))
     (Async_forward_entry_setups [''lock'', ''sensor''])
     (performed example_world_no_password
        (snd (async_setup_august example_const never_raises example_gateway
                example_world_no_password)))
   \<and> precedes (Entry_async_on_unload (Async_stop (AugustData example_gateway)))
     (Async_forward_entry_setups [''lock'', ''sensor''])
     (performed example_world_no_password
        (snd (async_setup_august example_const never_raises example_gateway
                example_world_no_password)))"
proof -
  obtain w1 where h1: "async_setup_august example_const never_raises example_gateway
      example_world_no_password = (Inr True, w1)"
    by (simp add: run_defs example_defs)
  from async_setup_august_cleanup_registered [OF h1] h1 show ?thesis
    by (simp add: example_const_def)
qed

subsection \<open>The conditional in the setup routine\<close>

lemma and_then_perform:
  "and_then (\<lambda>w. perform raises (a w) w) f w =
     (case raises (a w) of
        None \<Rightarrow> f () (w\<lparr>trace := trace w @ [a w]\<rparr>)
      | Some e \<Rightarrow> (Inl e, w\<lparr>trace := trace w @ [a w]\<rparr>))"
  by (simp add: and_then_def perform_def split: option.splits)

lemma and_then_set_runtime_data:
  "and_then (set_runtime_data d) f w =
     f () (w\<lparr>entry := (entry w)\<lparr>runtime_data := Some d\<rparr>,
             trace := trace w @ [Set_runtime_data d]\<rparr>)"
  by (simp add: and_then_def set_runtime_data_def)

lemma and_then_if:
  "and_then (\<lambda>w. if c w then m w else returns () w) f w =
     (if c w then and_then m f w else f () w)"
  by (simp add: and_then_def returns_def)

lemmas run_simps = async_setup_august_def Let_def and_then_perform
  and_then_set_runtime_data and_then_if returns_def performed_def

lemma async_setup_august_trace:
  fixes w :: world and k :: const and gw :: gateway
  defines "full \<equiv>
    Gateway_async_setup gw (data (entry w)) #
      (if CONF_PASSWORD k \<in> dom (data (entry w))
       then [Async_update_entry ((data (entry w))(CONF_PASSWORD k := None))] else []) @
      [Gateway_async_authenticate gw,
       Gateway_async_refresh_access_token_if_needed gw,
       AugustData_init gw,
       Set_runtime_data (AugustData gw),
       Bus_async_listen (EVENT_HOMEASSISTANT_STOP k) (Async_stop (AugustData gw)),
       Entry_async_on_unload
         (Remove_listener (EVENT_HOMEASSISTANT_STOP k) (Async_stop (AugustData gw))),
       Entry_async_on_unload (Async_stop (AugustData gw)),
       Data_async_setup (AugustData gw),
       Async_forward_entry_setups (PLATFORMS k)]"
  shows "prefix (performed w (snd (async_setup_august k raises gw w))) full"
    and "\<not> isl (fst (async_setup_august k raises gw w)) \<longrightarrow>
           performed w (snd (async_setup_august k raises gw w)) = full"
  unfolding full_def
  by (simp_all add: run_simps split: option.splits)

text \<open>
  C5, as amended. \<^verbatim>\<open>async_setup_august\<close> is a sequence of calls into collaborators with
  one conditional: \<^verbatim>\<open>async_update_entry\<close> is called, right after the gateway is set up,
  exactly when \<^verbatim>\<open>CONF_PASSWORD\<close> is a key of \<^verbatim>\<open>entry.data\<close>. Apart from that call the
  operations and their order are the same for every entry: a run that returns performs
  all of them, a run in which a collaborator raises performs an initial part of them.
\<close>

theorem async_setup_august_sequence:
  fixes w :: world and k :: const
  defines "expected \<equiv>
    ''august_gateway.async_setup'' #
    (if CONF_PASSWORD k \<in> dom (data (entry w))
     then [''hass.config_entries.async_update_entry''] else []) @
    [''august_gateway.async_authenticate'',
     ''august_gateway.async_refresh_access_token_if_needed'',
     ''AugustData'',
     ''entry.runtime_data ='',
     ''hass.bus.async_listen'',
     ''entry.async_on_unload'',
     ''entry.async_on_unload'',
     ''data.async_setup'',
     ''hass.config_entries.async_forward_entry_setups'']"
  shows "prefix (map action_name
           (performed w (snd (async_setup_august k raises gw w)))) expected
       \<and> (\<not> isl (fst (async_setup_august k raises gw w)) \<longrightarrow>
            map action_name
              (performed w (snd (async_setup_august k raises gw w))) = expected)"
proof -
  let ?full = "Gateway_async_setup gw (data (entry w)) #
      (if CONF_PASSWORD k \<in> dom (data (entry w))
       then [Async_update_entry ((data (entry w))(CONF_PASSWORD k := None))] else []) @
      [Gateway_async_authenticate gw,
       Gateway_async_refresh_access_token_if_needed gw,
       AugustData_init gw,
       Set_runtime_data (AugustData gw),
       Bus_async_listen (EVENT_HOMEASSISTANT_STOP k) (Async_stop (AugustData gw)),
       Entry_async_on_unload
         (Remove_listener (EVENT_HOMEASSISTANT_STOP k) (Async_stop (AugustData gw))),
       Entry_async_on_unload (Async_stop (AugustData gw)),
       Data_async_setup (AugustData gw),
       Async_forward_entry_setups (PLATFORMS k)]"
  have names: "map action_name ?full = expected"
    by (simp add: expected_def)
  have "prefix (map action_name (performed w (snd (async_setup_august k raises gw w))))
          (map action_name ?full)"
    by (rule map_mono_prefix) (rule async_setup_august_trace(1))
  moreover have "\<not> isl (fst (async_setup_august k raises gw w)) \<Longrightarrow>
      map action_name (performed w (snd (async_setup_august k raises gw w)))
        = map action_name ?full"
    using async_setup_august_trace(2) [of k raises gw w] by simp
  ultimately show ?thesis
    unfolding names by simp
qed

theorem async_setup_august_sequence_witness:
  "map action_name (performed example_world
      (snd (async_setup_august example_const never_raises example_gateway example_world)))
   = [''august_gateway.async_setup'',
      ''hass.config_entries.async_update_entry'',
      ''august_gateway.async_authenticate'',
      ''august_gateway.async_refresh_access_token_if_needed'',
      ''AugustData'',
      ''entry.runtime_data ='',
      ''hass.bus.async_listen'',
      ''entry.async_on_unload'',
      ''entry.async_on_unload'',
      ''data.async_setup'',
      ''hass.config_entries.async_forward_entry_setups'']"
proof -
  have r: "\<not> isl (fst (async_setup_august example_const never_raises example_gateway
      example_world))"
    by (simp add: run_defs example_defs)
  have p: "CONF_PASSWORD example_const \<in> dom (data (entry example_world))"
    by (simp add: example_defs)
  from async_setup_august_sequence
    [of example_world example_const never_raises example_gateway] r p
  show ?thesis by simp
qed

theorem async_setup_august_sequence_counterexample:
  "map action_name (performed example_world
      (snd (async_setup_august example_const never_raises example_gateway example_world)))
   \<noteq> map action_name (performed example_world_no_password
      (snd (async_setup_august example_const never_raises example_gateway
              example_world_no_password)))"
  by (simp add: run_defs performed_def example_defs)

text \<open>
  C8, as amended. If \<^verbatim>\<open>august_gateway.async_setup\<close> returns and \<^verbatim>\<open>CONF_PASSWORD\<close> is a key
  of \<^verbatim>\<open>entry.data\<close>, the run calls \<^verbatim>\<open>async_update_entry\<close> exactly once, with a mapping
  whose keys are those of \<^verbatim>\<open>entry.data\<close> without \<^verbatim>\<open>CONF_PASSWORD\<close> and whose values are
  the original ones. If \<^verbatim>\<open>CONF_PASSWORD\<close> is not a key, no run calls
  \<^verbatim>\<open>async_update_entry\<close>.
\<close>

theorem async_setup_august_password:
  fixes w :: world and k :: const and raises :: "action \<Rightarrow> exn option" and gw :: gateway
  defines "d \<equiv> data (entry w)"
  defines "updates \<equiv>
    entry_updates (performed w (snd (async_setup_august k raises gw w)))"
  shows "(CONF_PASSWORD k \<in> dom d \<and> raises (Gateway_async_setup gw d) = None \<longrightarrow>
            (\<exists>config_data. updates = [config_data]
               \<and> dom config_data = dom d - {CONF_PASSWORD k}
               \<and> (\<forall>key. key \<noteq> CONF_PASSWORD k \<longrightarrow> config_data key = d key)))
       \<and> (CONF_PASSWORD k \<notin> dom d \<longrightarrow> updates = [])"
  unfolding d_def updates_def
  by (simp add: run_simps split: option.splits)

theorem async_setup_august_password_witness:
  "entry_updates (performed example_world
      (snd (async_setup_august example_const never_raises example_gateway example_world)))
     = [[''username'' \<mapsto> StrVal ''u'']]
   \<and> entry_updates (performed example_world_no_password
      (snd (async_setup_august example_const never_raises example_gateway
              example_world_no_password))) = []"
proof -
  have p: "CONF_PASSWORD example_const \<in> dom (data (entry example_world))"
    "never_raises (Gateway_async_setup example_gateway (data (entry example_world))) = None"
    "CONF_PASSWORD example_const \<notin> dom (data (entry example_world_no_password))"
    by (simp_all add: example_defs)
  from async_setup_august_password [of example_const example_world never_raises example_gateway]
    p(1,2)
  obtain config_data where
    c: "entry_updates (performed example_world
          (snd (async_setup_august example_const never_raises example_gateway example_world)))
        = [config_data]"
      "dom config_data = dom (data (entry example_world)) - {CONF_PASSWORD example_const}"
      "\<forall>key. key \<noteq> CONF_PASSWORD example_const
         \<longrightarrow> config_data key = data (entry example_world) key"
    by blast
  have "config_data = [''username'' \<mapsto> StrVal ''u'']"
  proof
    fix key
    show "config_data key = [''username'' \<mapsto> StrVal ''u''] key"
    proof (cases "key = CONF_PASSWORD example_const")
      case True
      with c(2) have "config_data key = None" by blast
      with True show ?thesis by (simp add: example_defs)
    next
      case False
      with c(3) show ?thesis by (simp add: example_defs)
    qed
  qed
  with c(1) async_setup_august_password
    [of example_const example_world_no_password never_raises example_gateway] p(3)
  show ?thesis by simp
qed

theorem async_setup_august_password_counterexample:
  "CONF_PASSWORD example_const \<in> dom (data (entry example_world))
   \<and> entry_updates (performed example_world
      (snd (async_setup_august example_const
             (fails_at ''august_gateway.async_setup'' (Exn CannotConnect [] None))
             example_gateway example_world))) = []"
  by (simp add: run_defs performed_def example_defs)

subsection \<open>Removing a device\<close>

lemma any_identifier_iff:
  assumes "runtime_data config_entry = Some rd"
  shows "any_identifier k get_device config_entry ids =
    Inr (\<exists>identifier \<in> set ids.
           fst identifier = DOMAIN k \<and> get_device rd (snd identifier) \<noteq> None)"
  using assms by (induction ids) auto

text \<open>
  C9. For an entry that has its runtime data, \<^verbatim>\<open>async_remove_config_entry_device\<close>
  returns \<^verbatim>\<open>True\<close> if and only if no identifier of the device has \<^verbatim>\<open>DOMAIN\<close> as its first
  component and a second component for which \<^verbatim>\<open>get_device\<close> returns a device.
\<close>

theorem async_remove_config_entry_device_iff:
  assumes "runtime_data config_entry = Some rd"
  shows "async_remove_config_entry_device k get_device config_entry device_entry =
    Inr (\<not> (\<exists>identifier \<in> set (identifiers device_entry).
               fst identifier = DOMAIN k \<and> get_device rd (snd identifier) \<noteq> None))"
  using assms by (simp add: async_remove_config_entry_device_def any_identifier_iff)

theorem async_remove_config_entry_device_iff_witness:
  "async_remove_config_entry_device example_const example_get_device example_config_entry
     \<lparr>identifiers = [(''zha'', ''lock1''), (''august'', ''lock1'')]\<rparr> = Inr False
   \<and> async_remove_config_entry_device example_const example_get_device example_config_entry
     \<lparr>identifiers = [(''zha'', ''lock1''), (''august'', ''lock2'')]\<rparr> = Inr True"
proof -
  have h: "runtime_data example_config_entry = Some (AugustData example_gateway)"
    by (simp add: example_config_entry_def)
  show ?thesis
    using async_remove_config_entry_device_iff [OF h, of example_const example_get_device
        "\<lparr>identifiers = [(''zha'', ''lock1''), (''august'', ''lock1'')]\<rparr>"]
      async_remove_config_entry_device_iff [OF h, of example_const example_get_device
        "\<lparr>identifiers = [(''zha'', ''lock1''), (''august'', ''lock2'')]\<rparr>"]
    by (simp add: example_const_def example_get_device_def)
qed

end
